theory Spec2Isabelle
  imports Complex_Main "HOL-Library.Sublist"
begin

section \<open>Internship matching: the scoring and ranking of \<open>main.py\<close>\<close>

text \<open>
  The development embeds the endpoint \<open>match_top\<close> of \<open>main.py\<close> and the records of
  \<open>schemas.py\<close> it works on. Python's \<open>float\<close> arithmetic is idealised: a score is an
  exact rational number, and \<open>round(x, 4)\<close> rounds the exact value to the nearest multiple
  of \<open>1/10000\<close>, a tie going to the even multiple. Binary rounding errors of the
  IEEE-754 operations are outside the model.
\<close>

subsection \<open>Strings\<close>

text \<open>
  \<open>str.lower\<close>, on the letters of the ASCII alphabet: the characters of a \<open>string\<close> are
  bytes, and the byte of a capital letter is mapped to the byte of its small letter.
\<close>

definition lower_char :: "char \<Rightarrow> char" where
  "lower_char c =
     (let n = (of_char c :: nat)
      in if 65 \<le> n \<and> n \<le> 90 then char_of (n + 32) else c)"

definition lower :: "string \<Rightarrow> string" where
  "lower s = map lower_char s"

text \<open>\<open>str.upper\<close>, likewise; the source does not call it, the case-change property does.\<close>

definition upper_char :: "char \<Rightarrow> char" where
  "upper_char c =
     (let n = (of_char c :: nat)
      in if 97 \<le> n \<and> n \<le> 122 then char_of (n - 32) else c)"

definition upper :: "string \<Rightarrow> string" where
  "upper s = map upper_char s"

subsection \<open>Rounding\<close>

text \<open>The integer nearest to \<open>x\<close>; halfway between two integers, the even one.\<close>

definition round_half_even :: "rat \<Rightarrow> int" where
  "round_half_even x =
     (let f = \<lfloor>x\<rfloor>; d = x - of_int f
      in if d < 1 / 2 then f
         else if 1 / 2 < d then f + 1
         else if even f then f else f + 1)"

text \<open>\<open>round(x, ndigits)\<close> for a non-negative number of digits.\<close>

definition py_round :: "rat \<Rightarrow> nat \<Rightarrow> rat" where
  "py_round x ndigits = of_int (round_half_even (x * 10 ^ ndigits)) / 10 ^ ndigits"

subsection \<open>The records of \<open>schemas.py\<close>\<close>

record Student =
  name :: string
  email :: string
  password_hash :: string
  preferences :: "string list"
  resume_url :: "string option"
  role :: string

record Internship =
  title :: string
  company :: string
  description :: "string option"
  location :: "string option"
  stipend :: "string option"
  skills :: "string list"

record MatchRequest =
  req_email :: string
  limit :: int

text \<open>\<open>MatchResult\<close> of \<open>main.py\<close>: the fields \<open>score\<close> and \<open>internship\<close>.\<close>

record MatchResult =
  mr_score :: rat
  mr_internship :: Internship

subsection \<open>Scoring\<close>

text \<open>
  The nested function \<open>score\<close> of \<open>match_top\<close>. It closes over \<open>user_prefs\<close>, the
  lowercased preference list of the student, which is its first argument here.
  \<open>set(xs)\<close> is \<open>set xs\<close>, \<open>len\<close> of a set its cardinality, \<open>&\<close> the intersection.
\<close>

definition score :: "string list \<Rightarrow> Internship \<Rightarrow> rat" where
  "score user_prefs intern =
     (let sk = map lower (skills intern)
      in if sk = [] then 0
         else
           let overlap = card (set sk \<inter> set user_prefs);
               pref_cov = (if user_prefs \<noteq> []
                           then rat_of_nat overlap / rat_of_nat (max 1 (card (set user_prefs)))
                           else 0);
               skill_cov = rat_of_nat overlap / rat_of_nat (max 1 (card (set sk)))
           in py_round (6 / 10 * pref_cov + 4 / 10 * skill_cov) 4)"

subsection \<open>Ranking\<close>

text \<open>The list comprehension \<open>scored\<close>: one result per internship, in catalog order.\<close>

definition scored :: "string list \<Rightarrow> Internship list \<Rightarrow> MatchResult list" where
  "scored user_prefs internships =
     map (\<lambda>i. \<lparr>mr_score = score user_prefs i,
               mr_internship = \<lparr>title = title i, company = company i,
                                 description = description i, location = location i,
                                 stipend = stipend i, skills = skills i\<rparr>\<rparr>)
         internships"

text \<open>
  \<open>list.sort(key=..., reverse=True)\<close>: a stable sort in descending order of the key.
  CPython reverses the list, sorts it stably in ascending order and reverses it again.
\<close>

definition sort_reverse :: "('a \<Rightarrow> rat) \<Rightarrow> 'a list \<Rightarrow> 'a list" where
  "sort_reverse key xs = rev (sort_key key (rev xs))"

text \<open>
  The slice \<open>xs[:stop]\<close>: a negative \<open>stop\<close> counts from the end of the list, and the
  bound is clipped to the list.
\<close>

definition slice_to :: "'a list \<Rightarrow> int \<Rightarrow> 'a list" where
  "slice_to xs stop =
     (let n = int (length xs);
          s = (if stop < 0 then max 0 (stop + n) else min stop n)
      in take (nat s) xs)"

text \<open>
  The entries with a positive score, in sorted order: the list that \<open>match_top\<close> slices.
\<close>

definition positives :: "string list \<Rightarrow> Internship list \<Rightarrow> MatchResult list" where
  "positives prefs internships =
     filter (\<lambda>s. 0 < mr_score s)
       (sort_reverse mr_score (scored (map lower prefs) internships))"

text \<open>
  The body of \<open>match_top\<close> from the stored preference list of the student and the
  documents of the internship collection: the spec's \<open>rank\<close>.
\<close>

definition rank :: "string list \<Rightarrow> Internship list \<Rightarrow> int \<Rightarrow> MatchResult list" where
  "rank prefs internships lmt = slice_to (positives prefs internships) lmt"

subsection \<open>The endpoint\<close>

datatype error = HTTPException nat string

text \<open>
  The database: \<open>None\<close> when it is not configured, else the two collections.
  \<open>find_one\<close> returns the first document with the email of the request.
\<close>

record database =
  student :: "Student list"
  internship :: "Internship list"

definition match_top :: "database option \<Rightarrow> MatchRequest \<Rightarrow> error + MatchResult list" where
  "match_top db req =
     (case db of
        None \<Rightarrow> Inl (HTTPException 500 ''Database not configured'')
      | Some d \<Rightarrow>
          (case find (\<lambda>u. email u = req_email req) (student d) of
             None \<Rightarrow> Inl (HTTPException 404 ''User not found'')
           | Some user \<Rightarrow> Inr (rank (preferences user) (internship d) (limit req))))"

subsection \<open>The seeded catalog\<close>

text \<open>
  The five internships that \<open>seed_internships\<close> stores. The stipend starts with the
  rupee sign, three bytes in UTF-8.
\<close>

definition rupee :: string where
  "rupee = [CHR 0xE2, CHR 0x82, CHR 0xB9]"

definition data_analyst_intern :: Internship where
  "data_analyst_intern =
     \<lparr>title = ''Data Analyst Intern'', company = ''Insight Labs'',
      description = Some ''Work with data pipelines and dashboards'',
      location = Some ''Remote'', stipend = Some (rupee @ ''15,000''),
      skills = [''python'', ''sql'', ''pandas'', ''analytics'']\<rparr>"

definition frontend_developer_intern :: Internship where
  "frontend_developer_intern =
     \<lparr>title = ''Frontend Developer Intern'', company = ''WebWorks'',
      description = Some ''Build UI components with React'',
      location = Some ''Delhi'', stipend = Some (rupee @ ''12,000''),
      skills = [''react'', ''javascript'', ''css'', ''ui'']\<rparr>"

definition cybersecurity_intern :: Internship where
  "cybersecurity_intern =
     \<lparr>title = ''Cybersecurity Intern'', company = ''SecureNet'',
      description = Some ''Assist in vulnerability assessments'',
      location = Some ''Bangalore'', stipend = Some (rupee @ ''18,000''),
      skills = [''security'', ''network'', ''linux'', ''python'']\<rparr>"

definition machine_learning_intern :: Internship where
  "machine_learning_intern =
     \<lparr>title = ''Machine Learning Intern'', company = ''AI Forge'',
      description = Some ''Model training and experimentation'',
      location = Some ''Remote'', stipend = Some (rupee @ ''20,000''),
      skills = [''ml'', ''python'', ''scikit'', ''numpy'']\<rparr>"

definition backend_developer_intern :: Internship where
  "backend_developer_intern =
     \<lparr>title = ''Backend Developer Intern'', company = ''CloudStack'',
      description = Some ''APIs and microservices'',
      location = Some ''Hyderabad'', stipend = Some (rupee @ ''17,000''),
      skills = [''python'', ''fastapi'', ''mongodb'', ''docker'']\<rparr>"

definition samples :: "Internship list" where
  "samples = [data_analyst_intern, frontend_developer_intern, cybersecurity_intern,
              machine_learning_intern, backend_developer_intern]"

subsection \<open>The scoring formula, in the words of the specification\<close>

text \<open>
  The score of the specification, on the preference set \<open>P\<close> and the skill set \<open>S\<close>:
  the overlap is the size of the intersection, the preference coverage is the overlap
  over \<open>max(1, |P|)\<close> when \<open>P\<close> is not empty and 0 otherwise, the skill coverage is
  the overlap over \<open>max(1, |S|)\<close>, and the score is the weighted sum rounded to 4 digits.
\<close>

definition spec_score :: "string set \<Rightarrow> string set \<Rightarrow> rat" where
  "spec_score P S =
     (let overlap = card (S \<inter> P);
          pref_coverage = (if P \<noteq> {}
                           then rat_of_nat overlap / rat_of_nat (max 1 (card P))
                           else 0);
          skill_coverage = rat_of_nat overlap / rat_of_nat (max 1 (card S))
      in py_round (6 / 10 * pref_coverage + 4 / 10 * skill_coverage) 4)"

subsection \<open>Large token lists\<close>

text \<open>
  \<open>n\<close> pairwise different tokens: the character \<open>c\<close> once, twice, and so on. They
  build the large preference and skill lists of the rounding example.
\<close>

definition tokens :: "char \<Rightarrow> nat \<Rightarrow> string list" where
  "tokens c n = map (\<lambda>k. replicate (Suc k) c) [0..<n]"

section \<open>Auxiliary facts\<close>

subsection \<open>Strings\<close>

lemma lower_upper_char: "lower_char (upper_char c) = lower_char c"
  by (auto simp add: lower_char_def upper_char_def Let_def)

lemma lower_upper: "lower (upper s) = lower s"
  by (simp add: lower_def upper_def lower_upper_char)

lemma lower_lower_char: "lower_char (lower_char c) = lower_char c"
  by (auto simp add: lower_char_def Let_def)

subsection \<open>Rounding\<close>









lemma py_round_zero: "py_round 0 d = 0"
  by (simp add: py_round_def round_half_even_def)

subsection \<open>The score\<close>

lemma score_eq_spec:
  "score ups i =
     (if set (map lower (skills i)) = {} then 0
      else spec_score (set ups) (set (map lower (skills i))))"
  by (simp add: score_def spec_score_def Let_def)





lemma spec_score_no_overlap: "S \<inter> P = {} \<Longrightarrow> spec_score P S = 0"
  by (simp add: spec_score_def py_round_zero)

lemma score_no_prefs: "score [] i = 0"
  by (simp add: score_eq_spec spec_score_no_overlap)



subsection \<open>Slicing and sorting\<close>

lemma slice_to_nonneg: "0 \<le> k \<Longrightarrow> slice_to xs k = take (nat k) xs"
  by (simp add: slice_to_def Let_def min_def)

lemma slice_to_neg: "k < 0 \<Longrightarrow> slice_to xs k = take (length xs - nat (- k)) xs"
proof -
  assume neg: "k < 0"
  then have "nat (max 0 (k + int (length xs))) = length xs - nat (- k)"
    by (simp add: max_def) linarith
  with neg show ?thesis by (simp add: slice_to_def Let_def)
qed

lemma slice_to_take: "\<exists>m. slice_to xs k = take m xs"
  by (auto simp add: slice_to_def Let_def)

lemma set_sort_reverse: "set (sort_reverse f xs) = set xs"
  by (simp add: sort_reverse_def)

lemma length_sort_reverse: "length (sort_reverse f xs) = length xs"
  by (simp add: sort_reverse_def)

lemma sort_reverse_descending: "sorted_wrt (\<lambda>a b. f b \<le> f a) (sort_reverse f xs)"
proof -
  have "sorted (map f (sort_key f (rev xs)))"
    by (rule sorted_sort_key)
  then have "sorted_wrt (\<lambda>a b. f a \<le> f b) (sort_key f (rev xs))"
    by (simp add: sorted_map)
  then show ?thesis
    by (simp add: sort_reverse_def sorted_wrt_rev)
qed

lemma sort_reverse_stable:
  "filter (\<lambda>y. f y = k) (sort_reverse f xs) = filter (\<lambda>y. f y = k) xs"
proof -
  have "filter (\<lambda>y. f y = k) (sort_reverse f xs) = rev (filter (\<lambda>y. f y = k) (sort_key f (rev xs)))"
    by (simp add: sort_reverse_def rev_filter)
  also have "\<dots> = rev (filter (\<lambda>y. f y = k) (rev xs))"
    by (simp only: sort_key_stable)
  also have "\<dots> = filter (\<lambda>y. f y = k) xs"
    by (simp add: rev_filter)
  finally show ?thesis .
qed

subsection \<open>The scored list and the ranking\<close>

lemma Internship_copy:
  "\<lparr>title = title i, company = company i, description = description i,
    location = location i, stipend = stipend i, skills = skills i\<rparr> = i"
  by (cases i) simp

lemma scored_scores: "map mr_score (scored ups c) = map (score ups) c"
  by (simp add: scored_def)

lemma scored_internships: "map mr_internship (scored ups c) = c"
  by (simp add: scored_def Internship_copy comp_def)

lemma scored_consistent: "r \<in> set (scored ups c) \<Longrightarrow> mr_score r = score ups (mr_internship r)"
  by (auto simp add: scored_def Internship_copy)

lemma positives_subset: "set (positives p c) \<subseteq> set (scored (map lower p) c)"
  by (auto simp add: positives_def set_sort_reverse)

lemma positives_positive: "r \<in> set (positives p c) \<Longrightarrow> 0 < mr_score r"
  by (simp add: positives_def)

lemma length_positives: "length (positives p c) \<le> length c"
proof -
  have "length (positives p c) \<le> length (sort_reverse mr_score (scored (map lower p) c))"
    unfolding positives_def by (rule length_filter_le)
  then show ?thesis
    by (simp add: length_sort_reverse scored_def)
qed

lemma positives_descending: "sorted_wrt (\<lambda>a b. mr_score b \<le> mr_score a) (positives p c)"
  unfolding positives_def by (intro sorted_wrt_filter sort_reverse_descending)

lemma positives_stable:
  "filter (\<lambda>r. mr_score r = v) (positives p c) =
     (if 0 < v then filter (\<lambda>r. mr_score r = v) (scored (map lower p) c) else [])"
proof (cases "0 < v")
  case True
  have "filter (\<lambda>r. mr_score r = v) (positives p c) =
        filter (\<lambda>r. 0 < mr_score r) (filter (\<lambda>r. mr_score r = v)
          (sort_reverse mr_score (scored (map lower p) c)))"
    by (simp add: positives_def conj_commute)
  also have "\<dots> = filter (\<lambda>r. 0 < mr_score r) (filter (\<lambda>r. mr_score r = v) (scored (map lower p) c))"
    by (simp only: sort_reverse_stable)
  also have "\<dots> = filter (\<lambda>r. mr_score r = v) (scored (map lower p) c)"
    using True by (simp cong: conj_cong)
  finally show ?thesis using True by simp
next
  case False
  then have "filter (\<lambda>r. mr_score r = v) (positives p c) = []"
    by (auto simp add: positives_def filter_empty_conv)
  with False show ?thesis by simp
qed

lemma scored_filter_internships:
  "map mr_internship (filter (\<lambda>r. mr_score r = v) (scored ups c)) =
     filter (\<lambda>i. score ups i = v) c"
  by (induction c) (simp_all add: scored_def Internship_copy)

lemma rank_take: "\<exists>m. rank p c l = take m (positives p c)"
  unfolding rank_def by (rule slice_to_take)

lemma rank_subset: "set (rank p c l) \<subseteq> set (positives p c)"
proof -
  obtain m where "rank p c l = take m (positives p c)"
    using rank_take by blast
  then show ?thesis by (simp add: set_take_subset)
qed

lemma rank_consistent:
  assumes "r \<in> set (rank p c l)"
  shows "0 < mr_score r" and "mr_score r = score (map lower p) (mr_internship r)"
proof -
  from assms rank_subset have r: "r \<in> set (positives p c)" by blast
  then show "0 < mr_score r" by (rule positives_positive)
  from r positives_subset have "r \<in> set (scored (map lower p) c)" by blast
  then show "mr_score r = score (map lower p) (mr_internship r)"
    by (rule scored_consistent)
qed

lemma rank_excludes:
  assumes "score (map lower p) i = 0"
  shows "i \<notin> mr_internship ` set (rank p c l)"
proof
  assume "i \<in> mr_internship ` set (rank p c l)"
  then obtain r where r: "r \<in> set (rank p c l)" and i: "i = mr_internship r"
    by blast
  from rank_consistent [OF r] i assms show False by simp
qed

subsection \<open>Token lists\<close>

lemma distinct_tokens: "distinct (tokens c n)"
proof -
  have "inj (\<lambda>k. replicate (Suc k) c)"
    by (rule injI) (metis length_replicate nat.inject)
  then show ?thesis
    by (simp add: tokens_def distinct_map inj_on_def)
qed

lemma card_tokens: "card (set (tokens c n)) = n"
proof -
  have "card (set (tokens c n)) = length (tokens c n)"
    by (rule distinct_card) (rule distinct_tokens)
  then show ?thesis by (simp add: tokens_def)
qed

lemma lower_tokens: "lower_char c = c \<Longrightarrow> map lower (tokens c n) = tokens c n"
  by (simp add: tokens_def lower_def)

lemma tokens_disjoint: "a \<noteq> b \<Longrightarrow> set (tokens a n) \<inter> set (tokens b m) = {}"
proof -
  assume ab: "a \<noteq> b"
  have "replicate (Suc j) a \<noteq> replicate (Suc k) b" for j k
    using ab by simp
  then show ?thesis
    by (auto simp add: tokens_def)
qed

lemma in_tokens: "k < n \<Longrightarrow> replicate (Suc k) c \<in> set (tokens c n)"
  by (simp add: tokens_def)

subsection \<open>Tokens that differ in case only\<close>

lemma same_tokens_upper: "lower ` set (map upper xs) = lower ` set xs"
  by (simp add: image_image lower_upper)

lemma same_tokens_lower: "map lower xs = map lower ys \<Longrightarrow> lower ` set xs = lower ` set ys"
  by (metis set_map)

lemma same_tokens_set: "set xs = set ys \<Longrightarrow> lower ` set xs = lower ` set ys"
  by simp

subsection \<open>Two large lists with one common token\<close>

lemma lower_char_a: "lower_char CHR ''a'' = CHR ''a''"
  by code_simp

lemma lower_char_b: "lower_char CHR ''b'' = CHR ''b''"
  by code_simp

lemma sparse_overlap:
  assumes "a \<noteq> b" and "0 < n"
  shows "set ([a] # tokens b m) \<inter> set (tokens a n) = {[a]}"
    and "card (set ([a] # tokens b m)) = Suc m"
proof -
  have ina: "[a] \<in> set (tokens a n)"
    using in_tokens [OF assms(2), of a] by simp
  have disj: "set (tokens b m) \<inter> set (tokens a n) = {}"
    using assms(1) by (intro tokens_disjoint) simp
  from ina disj show "set ([a] # tokens b m) \<inter> set (tokens a n) = {[a]}"
    by auto
  from ina disj have "[a] \<notin> set (tokens b m)"
    by blast
  then show "card (set ([a] # tokens b m)) = Suc m"
    by (simp add: card_tokens)
qed

subsection \<open>The endpoint\<close>

lemma match_top_rank:
  "find (\<lambda>u. email u = req_email req) (student d) = Some user \<Longrightarrow>
     match_top (Some d) req = Inr (rank (preferences user) (internship d) (limit req))"
  by (simp add: match_top_def)

section \<open>Properties\<close>

subsection \<open>The scoring formula\<close>



subsection \<open>Limits that are zero or negative\<close>

text \<open>
  C2, as the code has it: with limit 0 the result is empty. With a negative limit the
  slice drops the last \<open>-limit\<close> entries of the sorted list of the entries with a
  positive score, so the result is empty exactly when there are at most \<open>-limit\<close>
  such entries.
\<close>

theorem rank_nonpositive_limit:
  "rank prefs internships 0 = []
   \<and> (lmt < 0 \<longrightarrow>
        rank prefs internships lmt =
          take (length (positives prefs internships) - nat (- lmt)) (positives prefs internships)
        \<and> (rank prefs internships lmt = [] \<longleftrightarrow>
             length (positives prefs internships) \<le> nat (- lmt)))"
  by (auto simp add: rank_def slice_to_neg slice_to_nonneg)

theorem rank_nonpositive_limit_witness:
  "(- 1 :: int) < 0
   \<and> rank [''python''] samples 0 = []
   \<and> rank [''python''] samples (- 1) =
       take (length (positives [''python''] samples) - nat (- (- 1))) (positives [''python''] samples)
   \<and> length (positives [''python''] samples) = 4
   \<and> rank [''python''] samples (- 4) = []"
proof -
  have len: "length (positives [''python''] samples) = 4"
    by code_simp
  from rank_nonpositive_limit [of "[''python'']" samples "- 1"]
       rank_nonpositive_limit [of "[''python'']" samples "- 4"] len
  show ?thesis by simp
qed

text \<open>
  The claim C2 as it is written fails: on the seeded catalog, the preference python and
  the limit -1 the result has three entries.
\<close>

theorem rank_negative_limit_counterexample:
  "(- 1 :: int) \<le> 0
   \<and> map (title \<circ> mr_internship) (rank [''python''] samples (- 1)) =
       [''Data Analyst Intern'', ''Cybersecurity Intern'', ''Machine Learning Intern'']
   \<and> rank [''python''] samples (- 1) \<noteq> []"
proof -
  have "map (title \<circ> mr_internship) (rank [''python''] samples (- 1)) =
       [''Data Analyst Intern'', ''Cybersecurity Intern'', ''Machine Learning Intern'']"
    by code_simp
  then show ?thesis by auto
qed

subsection \<open>Empty preferences\<close>

text \<open>
  C3: with an empty preference list every score is 0 and the result is empty, for every
  catalog and every limit.
\<close>

theorem rank_no_preferences:
  "score (map lower []) intern = 0 \<and> rank [] internships lmt = []"
proof
  show "score (map lower []) intern = 0"
    by (simp add: score_no_prefs)
  have "positives [] internships = []"
    by (simp add: positives_def filter_empty_conv set_sort_reverse scored_def score_no_prefs)
  then show "rank [] internships lmt = []"
    by (simp add: rank_def slice_to_def)
qed

subsection \<open>Internships without skills\<close>

text \<open>
  C4: an internship whose skill list normalises to the empty set has score 0, whatever
  the preferences are.
\<close>

theorem score_no_skills:
  "set (map lower (skills intern)) = {} \<Longrightarrow> score user_prefs intern = 0"
  by (simp add: score_def)

theorem score_no_skills_witness:
  "set (map lower (skills (data_analyst_intern\<lparr>skills := []\<rparr>))) = {}
   \<and> score (map lower [''python'', ''sql'']) (data_analyst_intern\<lparr>skills := []\<rparr>) = 0"
  using score_no_skills [of "data_analyst_intern\<lparr>skills := []\<rparr>" "map lower [''python'', ''sql'']"]
  by simp

subsection \<open>Order of the result\<close>

text \<open>
  C5: the scores of the result are in descending order; the score of an entry is the
  score of its internship; and for every score \<open>v\<close> the internships of the entries
  with score \<open>v\<close> are, in the order of the result, an initial part of the internships
  with score \<open>v\<close> in the order of the catalog. Entries with equal scores keep the
  order of the catalog.
\<close>

theorem rank_sorted_stable:
  "sorted_wrt (\<lambda>a b. b \<le> a) (map mr_score (rank prefs internships lmt))
   \<and> map mr_score (rank prefs internships lmt) =
       map (\<lambda>r. score (map lower prefs) (mr_internship r)) (rank prefs internships lmt)
   \<and> prefix (map mr_internship (filter (\<lambda>r. mr_score r = v) (rank prefs internships lmt)))
        (filter (\<lambda>i. score (map lower prefs) i = v) internships)"
proof (intro conjI)
  obtain m where m: "rank prefs internships lmt = take m (positives prefs internships)"
    using rank_take by blast
  show "sorted_wrt (\<lambda>a b. b \<le> a) (map mr_score (rank prefs internships lmt))"
    unfolding m sorted_wrt_map by (intro sorted_wrt_take positives_descending)
  show "map mr_score (rank prefs internships lmt) =
       map (\<lambda>r. score (map lower prefs) (mr_internship r)) (rank prefs internships lmt)"
    by (rule map_cong [OF refl]) (rule rank_consistent(2))
  have "prefix (rank prefs internships lmt) (positives prefs internships)"
    unfolding m by (rule take_is_prefix)
  then have "prefix (filter (\<lambda>r. mr_score r = v) (rank prefs internships lmt))
       (filter (\<lambda>r. mr_score r = v) (positives prefs internships))"
    by (rule filter_mono_prefix)
  then have "prefix (map mr_internship (filter (\<lambda>r. mr_score r = v) (rank prefs internships lmt)))
       (map mr_internship (filter (\<lambda>r. mr_score r = v) (positives prefs internships)))"
    by (rule map_mono_prefix)
  moreover have "prefix (map mr_internship (filter (\<lambda>r. mr_score r = v) (positives prefs internships)))
       (filter (\<lambda>i. score (map lower prefs) i = v) internships)"
    by (simp add: positives_stable scored_filter_internships)
  ultimately show "prefix (map mr_internship (filter (\<lambda>r. mr_score r = v) (rank prefs internships lmt)))
        (filter (\<lambda>i. score (map lower prefs) i = v) internships)"
    by (rule prefix_order.trans)
qed

subsection \<open>Size of the result\<close>

text \<open>
  C6, as the code has it: for a limit that is not negative the result has at most
  \<open>limit\<close> entries; for every limit it has at most as many entries as the catalog, and
  every score in it is greater than 0.
\<close>

theorem rank_bounds:
  "(0 \<le> lmt \<longrightarrow> int (length (rank prefs internships lmt)) \<le> lmt)
   \<and> length (rank prefs internships lmt) \<le> length internships
   \<and> (\<forall>r \<in> set (rank prefs internships lmt). 0 < mr_score r)"
proof (intro conjI impI ballI)
  obtain m where m: "rank prefs internships lmt = take m (positives prefs internships)"
    using rank_take by blast
  show "int (length (rank prefs internships lmt)) \<le> lmt" if "0 \<le> lmt"
    using that by (simp add: rank_def slice_to_nonneg)
  have "length (rank prefs internships lmt) \<le> length (positives prefs internships)"
    unfolding m by simp
  with length_positives [of prefs internships]
  show "length (rank prefs internships lmt) \<le> length internships"
    by linarith
  show "0 < mr_score r" if "r \<in> set (rank prefs internships lmt)" for r
    using that by (rule rank_consistent(1))
qed

theorem rank_bounds_witness:
  "(0 :: int) \<le> 2
   \<and> map mr_score (rank [''python'', ''sql''] samples 2) = [8 / 10, 4 / 10]
   \<and> int (length (rank [''python'', ''sql''] samples 2)) \<le> 2
   \<and> length (rank [''python'', ''sql''] samples 2) \<le> length samples
   \<and> list_all (\<lambda>r. 0 < mr_score r) (rank [''python'', ''sql''] samples 2)"
proof -
  have "map mr_score (rank [''python'', ''sql''] samples 2) = [8 / 10, 4 / 10]"
    by code_simp
  with rank_bounds [of 2 "[''python'', ''sql'']" samples]
  show ?thesis by (simp add: list_all_iff)
qed

text \<open>
  The claim C6 as it is written fails for a negative limit: on the seeded catalog, the
  preference python and the limit -1 the result has three entries, more than the limit.
\<close>

theorem rank_length_counterexample:
  "length (rank [''python''] samples (- 1)) = 3
   \<and> \<not> int (length (rank [''python''] samples (- 1))) \<le> - 1"
proof -
  have "length (rank [''python''] samples (- 1)) = 3"
    by code_simp
  then show ?thesis by simp
qed

subsection \<open>Set semantics and case\<close>



subsection \<open>Range of the score\<close>


subsection \<open>Determinism\<close>

text \<open>
  C9: the score is a function of the pair of the lowercased preference set and the
  lowercased skill set of the internship: one function \<open>g\<close> of the two sets gives the
  score of every preference list and every internship.
\<close>

theorem score_deterministic:
  "\<exists>g. \<forall>prefs intern.
     score (map lower prefs) intern = g (lower ` set prefs) (lower ` set (skills intern))"
  by (rule exI [where x = "\<lambda>P S. if S = {} then 0 else spec_score P S"])
    (simp add: score_eq_spec)

subsection \<open>A positive overlap that rounds to 0\<close>

text \<open>
  C10: there are a preference list and an internship, each with 40000 different tokens
  and with exactly one token in common, for which the score is 0: the weighted sum
  is 1/40000 and rounds to 0 at 4 digits. The internship is in no result, for any
  catalog and any limit.
\<close>

theorem positive_overlap_excluded:
  "\<exists>prefs intern.
     card (set (map lower prefs)) = 40000
     \<and> card (set (map lower (skills intern))) = 40000
     \<and> card (set (map lower (skills intern)) \<inter> set (map lower prefs)) = 1
     \<and> score (map lower prefs) intern = 0
     \<and> (\<forall>internships lmt. intern \<notin> mr_internship ` set (rank prefs internships lmt))"
proof -
  define prefs where "prefs = tokens CHR ''a'' 40000"
  define intern where "intern = \<lparr>title = ''T'', company = ''C'', description = None,
    location = None, stipend = None, skills = ''a'' # tokens CHR ''b'' 39999\<rparr>"
  have ab: "CHR ''a'' \<noteq> CHR ''b''" by simp
  have lp: "map lower prefs = tokens CHR ''a'' 40000"
    unfolding prefs_def by (rule lower_tokens) (rule lower_char_a)
  have ls: "map lower (skills intern) = ''a'' # tokens CHR ''b'' 39999"
    by (simp add: intern_def lower_tokens [OF lower_char_b] lower_def lower_char_a)
  have cp: "card (set (map lower prefs)) = 40000"
    unfolding lp by (rule card_tokens)
  have cs: "card (set (map lower (skills intern))) = 40000"
    unfolding ls using sparse_overlap(2) [OF ab, of 1 39999] by simp
  have ov: "set (map lower (skills intern)) \<inter> set (map lower prefs) = {''a''}"
    unfolding ls lp by (rule sparse_overlap(1) [OF ab]) simp
  have co: "card (set (map lower (skills intern)) \<inter> set (map lower prefs)) = 1"
    unfolding ov by simp
  have fl: "\<lfloor>1 / 4 :: rat\<rfloor> = 0"
    by (simp add: floor_eq_iff)
  have ne: "map lower (skills intern) \<noteq> []" "map lower prefs \<noteq> []"
    using cs cp by auto
  have sc: "score (map lower prefs) intern = 0"
    unfolding score_def Let_def using ne
    by (simp only: co cp cs if_False if_True not_False_eq_True)
       (simp add: py_round_def round_half_even_def Let_def fl)
  have ex: "\<forall>internships lmt. intern \<notin> mr_internship ` set (rank prefs internships lmt)"
    using rank_excludes [OF sc] by blast
  from cp cs co sc ex show ?thesis by blast
qed

end
